theory Spec2Isabelle
  imports Main "HOL-Library.Word"
begin

section \<open>The load-profile desktop shell: process_load.cpp\<close>

text \<open>
  The program is one C++ file: a function \<open>process_csv\<close> that prints one line inside a
  try block, a window class \<open>MainWindow\<close> whose constructor places one button, and the
  slot \<open>onSelectFile\<close> that opens a file dialog and either warns or calls
  \<open>process_csv\<close>. Everything the code does is an effect on the outside world, so the
  model is a world record threaded through statements, and every call into the toolkit
  or the standard streams appends one event to the world's trace.
\<close>

subsection \<open>Strings\<close>

text \<open>
  \<open>QString\<close> is a sequence of 16-bit code units; \<open>std::string\<close> is a sequence
  of bytes. \<open>QString::isEmpty\<close> holds of the string with no code unit (a null
  \<open>QString\<close> is empty as well, and the two are the same list here).
\<close>

type_synonym QString = "16 word list"

type_synonym std_string = string

definition isEmpty :: "QString \<Rightarrow> bool" where
  "isEmpty s = (s = [])"

definition endl :: string where
  "endl = [CHR 0x0A]"

subsection \<open>The world and its events\<close>

text \<open>The operands streamed into one \<open>qDebug()\<close> message, as the code gives them.\<close>

datatype QDebug_item = CString string | QStr QString

text \<open>
  One event per call that reaches outside the program, in program order.
  \<open>Enter_process_csv\<close> is a marker, not an output: it records that
  \<open>process_csv\<close> was entered and with which argument.
\<close>

datatype event =
    GetOpenFileName string string string
  | WarningBox string string
  | QDebugMsg "QDebug_item list"
  | Cout string
  | Cerr string
  | Enter_process_csv std_string

text \<open>
  The file system is part of the world so that the frame of each operation can be
  stated: a path maps to the file's contents, or to \<open>None\<close> when no such file exists.
\<close>

record world =
  trace :: "event list"
  files :: "std_string \<Rightarrow> string option"

subsection \<open>Statements that may throw\<close>

text \<open>
  What a C++ \<open>throw\<close> can carry: an object of \<open>std::exception\<close> or a class derived
  from it, with its \<open>what()\<close> text, or an object of any other type.
\<close>

datatype thrown = StdException string | NotStdException

type_synonym 'a stmt = "world \<Rightarrow> (thrown + 'a) \<times> world"

definition emit :: "event \<Rightarrow> unit stmt" where
  "emit e w = (Inr (), w\<lparr>trace := trace w @ [e]\<rparr>)"

definition skip :: "unit stmt" where
  "skip w = (Inr (), w)"


text \<open>Sequencing: a throw in the first statement skips the second.\<close>

definition seq :: "unit stmt \<Rightarrow> unit stmt \<Rightarrow> unit stmt" where
  "seq p q w = (case p w of (Inl x, w') \<Rightarrow> (Inl x, w') | (Inr u, w') \<Rightarrow> q w')"

text \<open>
  \<open>try { body } catch (const std::exception& e) { handler }\<close>: the handler runs on a
  thrown \<open>std::exception\<close>, with its \<open>what()\<close>; anything else thrown passes through.
\<close>

definition try_catch_std_exception :: "unit stmt \<Rightarrow> (string \<Rightarrow> unit stmt) \<Rightarrow> unit stmt" where
  "try_catch_std_exception body handler w =
     (case body w of
        (Inl (StdException what), w') \<Rightarrow> handler what w'
      | (Inl NotStdException, w') \<Rightarrow> (Inl NotStdException, w')
      | (Inr u, w') \<Rightarrow> (Inr u, w'))"

subsection \<open>process_csv\<close>

text \<open>
  The try block prints its line and then reaches the place the source marks with
  \<open>// Your existing CSV processing code here...\<close>. \<open>process_csv_with\<close> takes the code
  that would stand there as \<open>processing\<close>; \<open>process_csv\<close> is the function as the
  repository has it, with nothing there. \<open>std::cout\<close> keeps its default exception mask
  throughout the program, so the insertion itself does not throw.
\<close>

definition process_csv_try :: "unit stmt \<Rightarrow> std_string \<Rightarrow> unit stmt" where
  "process_csv_try processing input_file =
     seq (emit (Cout (''Processing file: '' @ input_file @ endl))) processing"

definition process_csv_catch :: "string \<Rightarrow> unit stmt" where
  "process_csv_catch what = emit (Cerr (''Error: '' @ what @ endl))"

definition process_csv_with :: "unit stmt \<Rightarrow> std_string \<Rightarrow> unit stmt" where
  "process_csv_with processing input_file =
     seq (emit (Enter_process_csv input_file))
       (try_catch_std_exception (process_csv_try processing input_file) process_csv_catch)"

definition process_csv :: "std_string \<Rightarrow> unit stmt" where
  "process_csv input_file = process_csv_with skip input_file"

subsection \<open>The file-selection slot\<close>

text \<open>
  What the user does with the modal dialog. \<open>QFileDialog::getOpenFileName\<close> returns
  the selected path, or a null string when the user cancels.
\<close>

datatype dialog_outcome = Cancelled | Accepted QString

definition getOpenFileName_result :: "dialog_outcome \<Rightarrow> QString" where
  "getOpenFileName_result d = (case d of Cancelled \<Rightarrow> [] | Accepted path \<Rightarrow> path)"

text \<open>
  \<open>QString::toStdString\<close> (the UTF-8 encoding of the code units) is the toolkit's and
  is taken as the parameter \<open>toStdString\<close>.
\<close>

definition onSelectFile :: "(QString \<Rightarrow> std_string) \<Rightarrow> dialog_outcome \<Rightarrow> unit stmt" where
  "onSelectFile toStdString d =
     seq (emit (GetOpenFileName ''Open CSV File'' [] ''CSV Files (*.csv)''))
       (let fileName = getOpenFileName_result d in
        if isEmpty fileName
        then emit (WarningBox ''No File Selected'' ''Please select a valid CSV file.'')
        else seq (emit (QDebugMsg [CString ''Selected file:'', QStr fileName]))
               (process_csv (toStdString fileName)))"

subsection \<open>Observing a run\<close>

text \<open>The events a statement adds to the trace when run from \<open>w\<close>.\<close>

definition effects :: "unit stmt \<Rightarrow> world \<Rightarrow> event list" where
  "effects p w = drop (length (trace w)) (trace (snd (p w)))"

fun warnings :: "event list \<Rightarrow> (string \<times> string) list" where
  "warnings [] = []"
| "warnings (WarningBox title msg # es) = (title, msg) # warnings es"
| "warnings (e # es) = warnings es"

fun process_csv_calls :: "event list \<Rightarrow> std_string list" where
  "process_csv_calls [] = []"
| "process_csv_calls (Enter_process_csv arg # es) = arg # process_csv_calls es"
| "process_csv_calls (e # es) = process_csv_calls es"

text \<open>The diagnostic sinks: the debug log, standard output and standard error.\<close>

fun is_diagnostic :: "event \<Rightarrow> bool" where
  "is_diagnostic (QDebugMsg items) = True"
| "is_diagnostic (Cout s) = True"
| "is_diagnostic (Cerr s) = True"
| "is_diagnostic e = False"

definition diagnostics :: "event list \<Rightarrow> event list" where
  "diagnostics es = filter is_diagnostic es"

fun is_Cout :: "event \<Rightarrow> bool" where
  "is_Cout (Cout s) = True"
| "is_Cout e = False"

fun is_Cerr :: "event \<Rightarrow> bool" where
  "is_Cerr (Cerr s) = True"
| "is_Cerr e = False"

text \<open>
  For examples: \<open>QString::toStdString\<close> on code units below 128, where the UTF-8
  encoding of a code unit is the one byte of the same value.
\<close>

definition toStdString_ascii :: "QString \<Rightarrow> std_string" where
  "toStdString_ascii s = map (\<lambda>u. char_of (unat u)) s"

subsection \<open>The main window\<close>

text \<open>
  A push button has a text and a geometry (x, y, width, height). The window keeps what
  the constructor touches or leaves alone: its parent, its current size, the size
  constraints, whether it is shown, its buttons, and the connections from a button's
  \<open>clicked\<close> signal (the button's position among the children) to a slot.
  \<open>MainWindow\<close> declares one slot. A button is named by its position, which the
  constructor gets from \<open>new_QPushButton\<close>; \<open>setGeometry\<close> on a position that
  holds no button changes nothing.
\<close>

record QPushButton =
  b_text :: string
  b_geometry :: "int \<times> int \<times> int \<times> int"

datatype slot = OnSelectFile

record QMainWindow =
  w_parent :: "nat option"
  w_size :: "int \<times> int"
  w_minimumSize :: "int \<times> int"
  w_maximumSize :: "int \<times> int"
  w_visible :: bool
  w_buttons :: "QPushButton list"
  w_connections :: "(nat \<times> slot) list"

text \<open>
  The toolkit's side. A new window has no size constraint: the minimum size is (0, 0)
  and the maximum is \<open>QWIDGETSIZE_MAX\<close> each way; its size before any \<open>resize\<close>
  depends on the platform and is the parameter \<open>platform_size\<close>. \<open>resize\<close> sets the
  current size, brought into the range of the constraints; it does not change them.
  A window has a fixed size when its minimum and maximum size are equal, which is what
  \<open>setFixedSize\<close> would set.
\<close>

definition QWIDGETSIZE_MAX :: int where
  "QWIDGETSIZE_MAX = 2 ^ 24 - 1"

definition QMainWindow_new :: "nat option \<Rightarrow> int \<times> int \<Rightarrow> QMainWindow" where
  "QMainWindow_new parent platform_size =
     \<lparr>w_parent = parent, w_size = platform_size,
      w_minimumSize = (0, 0), w_maximumSize = (QWIDGETSIZE_MAX, QWIDGETSIZE_MAX),
      w_visible = False, w_buttons = [], w_connections = []\<rparr>"

definition resize :: "int \<Rightarrow> int \<Rightarrow> QMainWindow \<Rightarrow> QMainWindow" where
  "resize width height this =
     this\<lparr>w_size :=
       (max (fst (w_minimumSize this)) (min (fst (w_maximumSize this)) width),
        max (snd (w_minimumSize this)) (min (snd (w_maximumSize this)) height))\<rparr>"

definition new_QPushButton :: "string \<Rightarrow> QMainWindow \<Rightarrow> nat \<times> QMainWindow" where
  "new_QPushButton caption this =
     (length (w_buttons this),
      this\<lparr>w_buttons := w_buttons this @ [\<lparr>b_text = caption, b_geometry = (0, 0, 0, 0)\<rparr>]\<rparr>)"

definition setGeometry :: "nat \<Rightarrow> int \<Rightarrow> int \<Rightarrow> int \<Rightarrow> int \<Rightarrow> QMainWindow \<Rightarrow> QMainWindow" where
  "setGeometry button x y width height this =
     (if button < length (w_buttons this)
      then this\<lparr>w_buttons :=
             (w_buttons this)[button :=
                (w_buttons this ! button)\<lparr>b_geometry := (x, y, width, height)\<rparr>]\<rparr>
      else this)"

definition connect_clicked :: "nat \<Rightarrow> slot \<Rightarrow> QMainWindow \<Rightarrow> QMainWindow" where
  "connect_clicked button target this =
     this\<lparr>w_connections := w_connections this @ [(button, target)]\<rparr>"

definition show_window :: "QMainWindow \<Rightarrow> QMainWindow" where
  "show_window this = this\<lparr>w_visible := True\<rparr>"

definition is_fixed_size :: "QMainWindow \<Rightarrow> bool" where
  "is_fixed_size this = (w_minimumSize this = w_maximumSize this)"

text \<open>The constructor of \<open>MainWindow\<close>, statement by statement.\<close>

definition MainWindow_new :: "nat option \<Rightarrow> int \<times> int \<Rightarrow> QMainWindow" where
  "MainWindow_new parent platform_size =
     (let this = QMainWindow_new parent platform_size;
          this = resize 300 100 this;
          (selectFileButton, this) = new_QPushButton ''Select CSV File'' this;
          this = setGeometry selectFileButton 50 20 200 50 this
      in connect_clicked selectFileButton OnSelectFile this)"

text \<open>\<open>main\<close> constructs the window with no parent and shows it.\<close>

definition main_window :: "int \<times> int \<Rightarrow> QMainWindow" where
  "main_window platform_size = show_window (MainWindow_new None platform_size)"

section \<open>Properties\<close>

lemma process_csv_run:
  "process_csv input_file w =
     (Inr (), w\<lparr>trace := trace w @
        [Enter_process_csv input_file, Cout (''Processing file: '' @ input_file @ endl)]\<rparr>)"
  by (simp add: process_csv_def process_csv_with_def process_csv_try_def
      try_catch_std_exception_def seq_def emit_def skip_def)

lemma effects_process_csv:
  "effects (process_csv input_file) w =
     [Enter_process_csv input_file, Cout (''Processing file: '' @ input_file @ endl)]"
  by (simp add: effects_def process_csv_run)

lemma onSelectFile_empty:
  assumes "isEmpty (getOpenFileName_result d)"
  shows "onSelectFile toStdString d w =
     (Inr (), w\<lparr>trace := trace w @
        [GetOpenFileName ''Open CSV File'' [] ''CSV Files (*.csv)'',
         WarningBox ''No File Selected'' ''Please select a valid CSV file.'']\<rparr>)"
  using assms by (simp add: onSelectFile_def seq_def emit_def Let_def)

lemma onSelectFile_selected:
  assumes "\<not> isEmpty (getOpenFileName_result d)"
  shows "onSelectFile toStdString d w =
     (Inr (), w\<lparr>trace := trace w @
        [GetOpenFileName ''Open CSV File'' [] ''CSV Files (*.csv)'',
         QDebugMsg [CString ''Selected file:'', QStr (getOpenFileName_result d)],
         Enter_process_csv (toStdString (getOpenFileName_result d)),
         Cout (''Processing file: '' @ toStdString (getOpenFileName_result d) @ endl)]\<rparr>)"
  using assms by (simp add: onSelectFile_def seq_def emit_def process_csv_run Let_def)

lemma effects_onSelectFile_empty:
  assumes "isEmpty (getOpenFileName_result d)"
  shows "effects (onSelectFile toStdString d) w =
        [GetOpenFileName ''Open CSV File'' [] ''CSV Files (*.csv)'',
         WarningBox ''No File Selected'' ''Please select a valid CSV file.'']"
  using assms by (simp add: effects_def onSelectFile_empty)

lemma effects_onSelectFile_selected:
  assumes "\<not> isEmpty (getOpenFileName_result d)"
  shows "effects (onSelectFile toStdString d) w =
        [GetOpenFileName ''Open CSV File'' [] ''CSV Files (*.csv)'',
         QDebugMsg [CString ''Selected file:'', QStr (getOpenFileName_result d)],
         Enter_process_csv (toStdString (getOpenFileName_result d)),
         Cout (''Processing file: '' @ toStdString (getOpenFileName_result d) @ endl)]"
  using assms by (simp add: effects_def onSelectFile_selected)

lemma accepted_nonempty:
  "fileName \<noteq> [] \<Longrightarrow> \<not> isEmpty (getOpenFileName_result (Accepted fileName))"
  by (simp add: isEmpty_def getOpenFileName_result_def)

lemma toStdString_ascii_a_csv:
  "toStdString_ascii [0x61, 0x2E, 0x63, 0x73, 0x76] = ''a.csv''"
  by code_simp

lemma toStdString_ascii_empty_iff:
  "(toStdString_ascii q = []) = isEmpty q"
  by (simp add: toStdString_ascii_def isEmpty_def)

subsection \<open>process_csv as the repository has it\<close>

text \<open>
  C3. For every input string, \<open>process_csv\<close> returns normally with no value, and all it
  does to the world is write one line to standard output: \<open>Processing file: \<close>, the
  input unchanged, and the line end. Nothing of the input is parsed or computed on.
\<close>

theorem C3_process_csv_emits_one_line:
  "process_csv input_file w =
     (Inr (), w\<lparr>trace := trace w @
        [Enter_process_csv input_file, Cout (''Processing file: '' @ input_file @ endl)]\<rparr>)
   \<and> diagnostics (effects (process_csv input_file) w) =
       [Cout (''Processing file: '' @ input_file @ endl)]"
  by (simp add: process_csv_run effects_process_csv diagnostics_def)

text \<open>
  C5. For every string, the empty one and the path of a file that does not exist
  included, \<open>process_csv\<close> returns normally, leaves the file system as it was, keeps
  what was already on the trace, and adds nothing but its line on standard output
  (and the marker of its own call).
\<close>

theorem C5_process_csv_frame:
  "fst (process_csv s w) = Inr ()
   \<and> files (snd (process_csv s w)) = files w
   \<and> take (length (trace w)) (trace (snd (process_csv s w))) = trace w
   \<and> filter (\<lambda>e. \<not> is_Cout e) (effects (process_csv s) w) = [Enter_process_csv s]
   \<and> filter is_Cout (effects (process_csv s) w) = [Cout (''Processing file: '' @ s @ endl)]"
  by (simp add: process_csv_run effects_process_csv)

text \<open>
  C6. The catch branch of \<open>process_csv\<close> is never entered: for every input the try
  block completes without throwing, so the function behaves the same whatever the
  handler is, and nothing is written to standard error.
\<close>

theorem C6_catch_branch_unreachable:
  "fst (process_csv_try skip input_file w) = Inr ()
   \<and> try_catch_std_exception (process_csv_try skip input_file) handler w =
       process_csv_try skip input_file w
   \<and> filter is_Cerr (effects (process_csv input_file) w) = []"
  by (simp add: process_csv_try_def try_catch_std_exception_def seq_def emit_def skip_def
      effects_process_csv)

subsection \<open>The handler around the try block\<close>


subsection \<open>The file-selection flow\<close>

text \<open>
  C1. Whenever the dialog returns an empty result (the user cancelled), the flow shows
  exactly one warning dialog, with the fixed message \<open>Please select a valid CSV file.\<close>,
  \<open>process_csv\<close> is not called, nothing is logged, and the slot returns normally.
\<close>

theorem C1_cancel_warns_once:
  assumes "isEmpty (getOpenFileName_result d)"
  shows "fst (onSelectFile toStdString d w) = Inr ()
    \<and> warnings (effects (onSelectFile toStdString d) w) =
        [(''No File Selected'', ''Please select a valid CSV file.'')]
    \<and> process_csv_calls (effects (onSelectFile toStdString d) w) = []
    \<and> diagnostics (effects (onSelectFile toStdString d) w) = []"
  using assms by (simp add: onSelectFile_empty effects_onSelectFile_empty diagnostics_def)

theorem C1_cancel_warns_once_witness:
  "isEmpty (getOpenFileName_result Cancelled)
   \<and> warnings (effects (onSelectFile toStdString_ascii Cancelled)
        \<lparr>trace = [], files = (\<lambda>p. None)\<rparr>) =
        [(''No File Selected'', ''Please select a valid CSV file.'')]
   \<and> process_csv_calls (effects (onSelectFile toStdString_ascii Cancelled)
        \<lparr>trace = [], files = (\<lambda>p. None)\<rparr>) = []"
proof -
  have h: "isEmpty (getOpenFileName_result Cancelled)"
    by (simp add: isEmpty_def getOpenFileName_result_def)
  show ?thesis
    using h C1_cancel_warns_once [OF h, of toStdString_ascii
        "\<lparr>trace = [], files = (\<lambda>p. None)\<rparr>"]
    by simp
qed

text \<open>
  C2. Whenever the dialog returns a non-empty path, \<open>process_csv\<close> is called exactly
  once, with that path (converted to a \<open>std::string\<close>): after the dialog and the debug
  message the run is the run of \<open>process_csv\<close> on the path, so the events added are
  exactly the dialog, the debug message, the call and its line on standard output.
  No warning dialog is shown and nothing is written to standard error. The file system
  is neither consulted nor changed: the run is the same whatever files exist.
\<close>

theorem C2_selected_path_processed_once:
  assumes "fileName \<noteq> []"
  shows "fst (onSelectFile toStdString (Accepted fileName) w) = Inr ()
    \<and> process_csv_calls (effects (onSelectFile toStdString (Accepted fileName)) w) =
        [toStdString fileName]
    \<and> warnings (effects (onSelectFile toStdString (Accepted fileName)) w) = []
    \<and> filter is_Cerr (effects (onSelectFile toStdString (Accepted fileName)) w) = []
    \<and> files (snd (onSelectFile toStdString (Accepted fileName) w)) = files w
    \<and> effects (onSelectFile toStdString (Accepted fileName)) (w\<lparr>files := fs\<rparr>) =
        effects (onSelectFile toStdString (Accepted fileName)) w
    \<and> effects (onSelectFile toStdString (Accepted fileName)) w =
        [GetOpenFileName ''Open CSV File'' [] ''CSV Files (*.csv)'',
         QDebugMsg [CString ''Selected file:'', QStr fileName],
         Enter_process_csv (toStdString fileName),
         Cout (''Processing file: '' @ toStdString fileName @ endl)]
    \<and> onSelectFile toStdString (Accepted fileName) w =
        process_csv (toStdString fileName)
          (w\<lparr>trace := trace w @
             [GetOpenFileName ''Open CSV File'' [] ''CSV Files (*.csv)'',
              QDebugMsg [CString ''Selected file:'', QStr fileName]]\<rparr>)"
proof -
  have ne: "\<not> isEmpty (getOpenFileName_result (Accepted fileName))"
    using assms by (rule accepted_nonempty)
  show ?thesis
    by (simp add: onSelectFile_selected [OF ne] effects_onSelectFile_selected [OF ne]
        getOpenFileName_result_def process_csv_run)
qed

theorem C2_selected_path_processed_once_witness:
  "[0x61, 0x2E, 0x63, 0x73, 0x76] \<noteq> ([] :: QString)
   \<and> process_csv_calls
        (effects (onSelectFile toStdString_ascii (Accepted [0x61, 0x2E, 0x63, 0x73, 0x76]))
           \<lparr>trace = [], files = (\<lambda>p. None)\<rparr>) = [''a.csv'']
   \<and> warnings
        (effects (onSelectFile toStdString_ascii (Accepted [0x61, 0x2E, 0x63, 0x73, 0x76]))
           \<lparr>trace = [], files = (\<lambda>p. None)\<rparr>) = []
   \<and> effects (onSelectFile toStdString_ascii (Accepted [0x61, 0x2E, 0x63, 0x73, 0x76]))
         \<lparr>trace = [], files = (\<lambda>p. None)\<rparr> =
       [GetOpenFileName ''Open CSV File'' [] ''CSV Files (*.csv)'',
        QDebugMsg [CString ''Selected file:'', QStr [0x61, 0x2E, 0x63, 0x73, 0x76]],
        Enter_process_csv ''a.csv'',
        Cout (''Processing file: a.csv'' @ endl)]"
proof -
  have h: "[0x61, 0x2E, 0x63, 0x73, 0x76] \<noteq> ([] :: QString)" by simp
  show ?thesis
    using C2_selected_path_processed_once [OF h, of toStdString_ascii
        "\<lparr>trace = [], files = (\<lambda>p. None)\<rparr>"] toStdString_ascii_a_csv
    by simp
qed

text \<open>
  C7. Whenever a non-empty path is selected, exactly two diagnostic messages are
  emitted, in this order: the debug message \<open>Selected file:\<close> with the path, then
  the standard-output line \<open>Processing file: \<close> with the path.
\<close>

theorem C7_two_diagnostic_lines_in_order:
  assumes "fileName \<noteq> []"
  shows "diagnostics (effects (onSelectFile toStdString (Accepted fileName)) w) =
     [QDebugMsg [CString ''Selected file:'', QStr fileName],
      Cout (''Processing file: '' @ toStdString fileName @ endl)]"
proof -
  have ne: "\<not> isEmpty (getOpenFileName_result (Accepted fileName))"
    using assms by (rule accepted_nonempty)
  show ?thesis
    by (simp add: effects_onSelectFile_selected [OF ne] diagnostics_def
        getOpenFileName_result_def)
qed

theorem C7_two_diagnostic_lines_in_order_witness:
  "[0x61, 0x2E, 0x63, 0x73, 0x76] \<noteq> ([] :: QString)
   \<and> diagnostics
        (effects (onSelectFile toStdString_ascii (Accepted [0x61, 0x2E, 0x63, 0x73, 0x76]))
           \<lparr>trace = [], files = (\<lambda>p. None)\<rparr>) =
       [QDebugMsg [CString ''Selected file:'', QStr [0x61, 0x2E, 0x63, 0x73, 0x76]],
        Cout (''Processing file: a.csv'' @ endl)]"
proof -
  have h: "[0x61, 0x2E, 0x63, 0x73, 0x76] \<noteq> ([] :: QString)" by simp
  show ?thesis
    using C7_two_diagnostic_lines_in_order [OF h, of toStdString_ascii
        "\<lparr>trace = [], files = (\<lambda>p. None)\<rparr>"] toStdString_ascii_a_csv
    by simp
qed

text \<open>
  C9. The slot is deterministic in the string the dialog returns: two runs in which
  the dialog returns the same string, from whatever worlds, add the same events and
  return the same way. In every run exactly one of the two branches executes: the
  warning is shown exactly when the string is empty, \<open>process_csv\<close> is called exactly
  when it is not, and the two together happen once.
\<close>

theorem C9_flow_deterministic_one_branch:
  assumes "getOpenFileName_result d1 = getOpenFileName_result d2"
  shows "effects (onSelectFile toStdString d1) w1 = effects (onSelectFile toStdString d2) w2
    \<and> fst (onSelectFile toStdString d1 w1) = fst (onSelectFile toStdString d2 w2)
    \<and> length (warnings (effects (onSelectFile toStdString d1) w1)) +
        length (process_csv_calls (effects (onSelectFile toStdString d1) w1)) = 1
    \<and> (warnings (effects (onSelectFile toStdString d1) w1) \<noteq> []) =
        isEmpty (getOpenFileName_result d1)
    \<and> (process_csv_calls (effects (onSelectFile toStdString d1) w1) \<noteq> []) =
        (\<not> isEmpty (getOpenFileName_result d1))"
proof (cases "isEmpty (getOpenFileName_result d1)")
  case True
  with assms have "isEmpty (getOpenFileName_result d2)" by simp
  with True show ?thesis
    by (simp add: onSelectFile_empty effects_onSelectFile_empty)
next
  case False
  with assms have "\<not> isEmpty (getOpenFileName_result d2)" by simp
  with False assms show ?thesis
    by (simp add: onSelectFile_selected effects_onSelectFile_selected)
qed

theorem C9_flow_deterministic_one_branch_witness:
  "getOpenFileName_result Cancelled = getOpenFileName_result (Accepted [])
   \<and> effects (onSelectFile toStdString_ascii Cancelled) \<lparr>trace = [], files = (\<lambda>p. None)\<rparr> =
       effects (onSelectFile toStdString_ascii (Accepted []))
         \<lparr>trace = [Cout ''earlier''], files = (\<lambda>p. None)\<rparr>
   \<and> length (warnings (effects (onSelectFile toStdString_ascii Cancelled)
         \<lparr>trace = [], files = (\<lambda>p. None)\<rparr>)) +
       length (process_csv_calls (effects (onSelectFile toStdString_ascii Cancelled)
         \<lparr>trace = [], files = (\<lambda>p. None)\<rparr>)) = 1"
proof -
  have h: "getOpenFileName_result Cancelled = getOpenFileName_result (Accepted [])"
    by (simp add: getOpenFileName_result_def)
  show ?thesis
    using h C9_flow_deterministic_one_branch [OF h, of toStdString_ascii
        "\<lparr>trace = [], files = (\<lambda>p. None)\<rparr>"
        "\<lparr>trace = [Cout ''earlier''], files = (\<lambda>p. None)\<rparr>"]
    by blast
qed

text \<open>
  C10. A dialog that returns the empty string cannot be told from a cancelled one: the
  run is the same, it shows the warning and does not call \<open>process_csv\<close>. So, with a
  conversion \<open>toStdString\<close> that gives the empty \<open>std::string\<close> for the empty
  \<open>QString\<close> only, no run of the slot calls \<open>process_csv\<close> with an empty path.
\<close>

theorem C10_empty_result_is_cancellation:
  assumes "\<And>q. (toStdString q = []) = isEmpty q"
  shows "onSelectFile toStdString (Accepted []) w = onSelectFile toStdString Cancelled w
    \<and> warnings (effects (onSelectFile toStdString (Accepted [])) w) =
        [(''No File Selected'', ''Please select a valid CSV file.'')]
    \<and> process_csv_calls (effects (onSelectFile toStdString (Accepted [])) w) = []
    \<and> [] \<notin> set (process_csv_calls (effects (onSelectFile toStdString d) w))"
proof -
  have e: "isEmpty (getOpenFileName_result (Accepted []))"
    "isEmpty (getOpenFileName_result Cancelled)"
    by (simp_all add: isEmpty_def getOpenFileName_result_def)
  have never_empty: "[] \<notin> set (process_csv_calls (effects (onSelectFile toStdString d) w))"
  proof (cases "isEmpty (getOpenFileName_result d)")
    case True
    then show ?thesis by (simp add: effects_onSelectFile_empty)
  next
    case False
    then have "toStdString (getOpenFileName_result d) \<noteq> []"
      using assms by simp
    with False show ?thesis by (simp add: effects_onSelectFile_selected)
  qed
  show ?thesis
    using never_empty
    by (simp add: onSelectFile_empty [OF e(1)] onSelectFile_empty [OF e(2)]
        effects_onSelectFile_empty [OF e(1)])
qed

theorem C10_empty_result_is_cancellation_witness:
  "(\<forall>q. (toStdString_ascii q = []) = isEmpty q)
   \<and> onSelectFile toStdString_ascii (Accepted []) \<lparr>trace = [], files = (\<lambda>p. None)\<rparr> =
       onSelectFile toStdString_ascii Cancelled \<lparr>trace = [], files = (\<lambda>p. None)\<rparr>
   \<and> process_csv_calls (effects (onSelectFile toStdString_ascii (Accepted []))
         \<lparr>trace = [], files = (\<lambda>p. None)\<rparr>) = []
   \<and> [] \<notin> set (process_csv_calls
         (effects (onSelectFile toStdString_ascii (Accepted [0x61, 0x2E, 0x63, 0x73, 0x76]))
            \<lparr>trace = [], files = (\<lambda>p. None)\<rparr>))"
  using C10_empty_result_is_cancellation [of toStdString_ascii
      "\<lparr>trace = [], files = (\<lambda>p. None)\<rparr>" "Accepted [0x61, 0x2E, 0x63, 0x73, 0x76]",
      OF toStdString_ascii_empty_iff]
    toStdString_ascii_empty_iff
  by simp

subsection \<open>The main window\<close>

text \<open>
  C8, as the code has it. The constructor gives the window the size 300 by 100 with
  \<open>resize\<close>, which leaves the size constraints at the toolkit's defaults, so the
  size is the initial one and not a fixed one. The window has exactly one button,
  labelled \<open>Select CSV File\<close>, at (50, 20) with size 200 by 50, and exactly one
  connection, from that button's click to the file-selection slot. The constructor
  does not show the window; \<open>main\<close> does.
\<close>

theorem C8_main_window_as_constructed:
  "w_size (MainWindow_new parent platform_size) = (300, 100)
   \<and> w_buttons (MainWindow_new parent platform_size) =
       [\<lparr>b_text = ''Select CSV File'', b_geometry = (50, 20, 200, 50)\<rparr>]
   \<and> w_connections (MainWindow_new parent platform_size) = [(0, OnSelectFile)]
   \<and> w_minimumSize (MainWindow_new parent platform_size) = (0, 0)
   \<and> w_maximumSize (MainWindow_new parent platform_size) =
       (QWIDGETSIZE_MAX, QWIDGETSIZE_MAX)
   \<and> w_visible (MainWindow_new parent platform_size) = False
   \<and> main_window platform_size = (MainWindow_new None platform_size)\<lparr>w_visible := True\<rparr>"
  by (simp add: main_window_def show_window_def MainWindow_new_def QMainWindow_new_def
      resize_def new_QPushButton_def setGeometry_def connect_clicked_def QWIDGETSIZE_MAX_def)

text \<open>
  C8 as the claim states it, with a window of fixed size, fails: the window that
  \<open>main\<close> constructs and shows has a minimum size different from its maximum size.
\<close>

theorem C8_window_not_fixed_size:
  "\<not> is_fixed_size (main_window (640, 480))"
  by (simp add: main_window_def show_window_def MainWindow_new_def QMainWindow_new_def
      resize_def new_QPushButton_def setGeometry_def connect_clicked_def QWIDGETSIZE_MAX_def
      is_fixed_size_def)

end
